theory Spec2Isabelle
  imports Complex_Main
begin

section \<open>The clip filter of Devil Ray (dray/filters/clip.cpp)\<close>

text \<open>
  A shallow embedding of the clip filter: the four distance evaluators
  (\<open>SphereDistance\<close>, \<open>SinglePlaneDistance\<close>, \<open>MultiPlaneDistance\<close>,
  \<open>BoxDistance\<close>), the shape configuration \<open>Clip::InternalsType\<close> and the
  driver \<open>Clip::execute\<close>.

  \<open>Float\<close> is read as a real number: the arithmetic of the source is kept term by
  term and in the source's order, rounding, infinities and NaN are left out.
  A C++ object that the source copies by value (\<open>DataSet\<close>, \<open>Vec\<close>) is a HOL value;
  a method that mutates its object returns the new object.
\<close>

subsection \<open>Vectors and normalisation\<close>

type_synonym Float = real

text \<open>\<open>Vec<Float, 3>\<close>, components \<open>[0]\<close>, \<open>[1]\<close>, \<open>[2]\<close>.\<close>

type_synonym Vec3 = "Float \<times> Float \<times> Float"

text \<open>\<open>Float [3][3]\<close> and \<open>Vec<Vec<Float, 3>, 3>\<close>: three rows.\<close>

type_synonym Mat3 = "Vec3 \<times> Vec3 \<times> Vec3"

text \<open>
  Row \<open>i\<close> of a three-row array. The source reads rows 0, 1 and 2 only; every caller
  below checks \<open>i < 3\<close> before it reads.
\<close>

definition row :: "Mat3 \<Rightarrow> nat \<Rightarrow> Vec3" where
  "row m i = (case m of (r0, r1, r2) \<Rightarrow> if i = 0 then r0 else if i = 1 then r1 else r2)"

text \<open>\<open>normalize(Vec<Float, 3> &vec)\<close>: the vector after the call.\<close>

definition normalize_vec :: "Vec3 \<Rightarrow> Vec3" where
  "normalize_vec vec =
     (case vec of (v0, v1, v2) \<Rightarrow>
        let mag = sqrt (v0 * v0 + v1 * v1 + v2 * v2)
        in if mag > 0 then (v0 / mag, v1 / mag, v2 / mag) else (v0, v1, v2))"

subsection \<open>Meshes and fields\<close>

text \<open>
  \<open>GridFunction<N>\<close>: the members the evaluators copy, and the values, one per
  degree of freedom.
\<close>

record 'v GridFunction =
  m_el_dofs :: int
  m_size_el :: int
  m_size_ctrl :: int
  m_ctrl_idx :: "int list"
  m_values :: "'v list"

text \<open>
  A mesh as the evaluators see it through \<open>get_dof_data()\<close>, \<open>order()\<close> and \<open>name()\<close>.
\<close>

record Mesh =
  mesh_name :: string
  mesh_dof_data :: "Vec3 GridFunction"
  mesh_order :: int

text \<open>
  A scalar field (\<open>UnstructuredField\<close> over a \<open>GridFunction<1>\<close>), with the name and
  the mesh name that \<open>Field::name\<close> and \<open>Field::mesh_name\<close> set.
\<close>

record Field =
  field_name :: string
  field_mesh_name :: string
  field_gf :: "Float GridFunction"
  field_order :: int

text \<open>
  The common tail of the four \<open>operator()\<close>: a \<open>GridFunction<1>\<close> with the
  topology of the mesh and the computed values, wrapped as a field of the order of the
  mesh. The new field has no name yet.
\<close>

definition wrap_field :: "Mesh \<Rightarrow> Float list \<Rightarrow> Field" where
  "wrap_field mesh vals =
     \<lparr>field_name = [], field_mesh_name = [],
      field_gf = \<lparr>m_el_dofs = m_el_dofs (mesh_dof_data mesh),
                  m_size_el = m_size_el (mesh_dof_data mesh),
                  m_size_ctrl = m_size_ctrl (mesh_dof_data mesh),
                  m_ctrl_idx = m_ctrl_idx (mesh_dof_data mesh),
                  m_values = vals\<rparr>,
      field_order = mesh_order mesh\<rparr>"

subsection \<open>Distance evaluators\<close>

text \<open>
  The sum \<open>xterm + yterm + zterm\<close> that the plane, multi-plane and box evaluators
  each compute for a point \<open>(px, py, pz)\<close>, an origin and a normal.
\<close>

definition plane_terms :: "Vec3 \<Rightarrow> Vec3 \<Rightarrow> Vec3 \<Rightarrow> Float" where
  "plane_terms p origin normal =
     (case p of (px, py, pz) \<Rightarrow>
      case origin of (o0, o1, o2) \<Rightarrow>
      case normal of (n0, n1, n2) \<Rightarrow>
        let xterm = (px - o0) * n0;
            yterm = (py - o1) * n1;
            zterm = (pz - o2) * n2
        in xterm + yterm + zterm)"

record SphereDistance =
  sph_center :: Vec3
  sph_radius :: Float

definition SphereDistance_new :: "Vec3 \<Rightarrow> Float \<Rightarrow> SphereDistance" where
  "SphereDistance_new center radius = \<lparr>sph_center = center, sph_radius = radius\<rparr>"

definition sphere_point :: "Vec3 \<Rightarrow> Vec3 \<Rightarrow> Float" where
  "sphere_point center p =
     (case p of (px, py, pz) \<Rightarrow>
      case center of (c0, c1, c2) \<Rightarrow>
        let dx = c0 - px; dy = c1 - py; dz = c2 - pz
        in sqrt (dx * dx + dy * dy + dz * dz))"

text \<open>\<open>SphereDistance::operator()\<close>: the field left in \<open>m_output\<close>.\<close>

definition SphereDistance_call :: "SphereDistance \<Rightarrow> Mesh \<Rightarrow> Field" where
  "SphereDistance_call d mesh =
     wrap_field mesh (map (sphere_point (sph_center d)) (m_values (mesh_dof_data mesh)))"

text \<open>
  \<open>SinglePlaneDistance\<close>: the origin and the normal. The member \<open>m_invert\<close> of the
  source is never written and never read; it is left out. The constructor normalises the
  normal.
\<close>

record SinglePlaneDistance =
  sp_origin :: Vec3
  sp_normal :: Vec3

definition SinglePlaneDistance_new :: "Vec3 \<Rightarrow> Vec3 \<Rightarrow> SinglePlaneDistance" where
  "SinglePlaneDistance_new origin normal =
     \<lparr>sp_origin = origin, sp_normal = normalize_vec normal\<rparr>"

definition SinglePlaneDistance_call :: "SinglePlaneDistance \<Rightarrow> Mesh \<Rightarrow> Field" where
  "SinglePlaneDistance_call d mesh =
     wrap_field mesh
       (map (\<lambda>p. plane_terms p (sp_origin d) (sp_normal d)) (m_values (mesh_dof_data mesh)))"

text \<open>
  The ways a call can fail: \<open>DRAY_ERROR\<close> in the constructor of
  \<open>MultiPlaneDistance\<close>, a mesh type the dispatch does not support, a null pointer
  that is dereferenced, and a read past the three rows of the plane arrays.
\<close>

datatype error =
  ConfigurationError
  | DispatchError
  | NullPointer
  | IndexOutOfRange

record MultiPlaneDistance =
  mp_origin :: Mat3
  mp_normal :: Mat3
  mp_planes :: int

text \<open>
  The constructor copies the two arrays (\<open>to_dray_vec\<close>), raises \<open>DRAY_ERROR\<close>
  unless there are 1 to 3 planes, and normalises the three normals, whatever the number
  of planes.
\<close>

definition MultiPlaneDistance_new :: "Mat3 \<Rightarrow> Mat3 \<Rightarrow> int \<Rightarrow> error + MultiPlaneDistance" where
  "MultiPlaneDistance_new origin normal nplanes =
     (if nplanes > 3 \<or> nplanes < 1 then Inl ConfigurationError
      else Inr \<lparr>mp_origin = origin,
                mp_normal = (normalize_vec (row normal 0), normalize_vec (row normal 1),
                             normalize_vec (row normal 2)),
                mp_planes = nplanes\<rparr>)"

text \<open>
  The loop \<open>for(int p = 0; p < nplanes; p++)\<close> over the remaining plane indices, with
  the running \<open>pdist\<close>.
\<close>

fun plane_loop :: "Mat3 \<Rightarrow> Mat3 \<Rightarrow> Vec3 \<Rightarrow> nat list \<Rightarrow> Float \<Rightarrow> Float" where
  "plane_loop origin normal pt [] pdist = pdist"
| "plane_loop origin normal pt (p # ps) pdist =
     (let dist = plane_terms pt (row origin p) (row normal p)
      in plane_loop origin normal pt ps (if p = 0 then dist else min pdist dist))"

text \<open>
  One point of \<open>MultiPlaneDistance::operator()\<close>. The source leaves \<open>pdist\<close>
  uninitialised before the loop; the constructor admits \<open>nplanes \<ge> 1\<close> only, so the
  iteration \<open>p = 0\<close> writes it before it is read. The model starts it at 0.
\<close>

definition multi_plane_point :: "MultiPlaneDistance \<Rightarrow> Vec3 \<Rightarrow> Float" where
  "multi_plane_point d pt =
     plane_loop (mp_origin d) (mp_normal d) pt [0..<nat (mp_planes d)] 0"

definition MultiPlaneDistance_call :: "MultiPlaneDistance \<Rightarrow> Mesh \<Rightarrow> Field" where
  "MultiPlaneDistance_call d mesh =
     wrap_field mesh (map (multi_plane_point d) (m_values (mesh_dof_data mesh)))"

text \<open>
  \<open>Range\<close> and \<open>AABB<3>\<close> of dray are read through \<open>min()\<close>, \<open>max()\<close> and
  \<open>m_ranges[i]\<close> only.
\<close>

record Range =
  range_min :: Float
  range_max :: Float

record AABB =
  m_ranges :: "Range \<times> Range \<times> Range"

definition ranges_at :: "AABB \<Rightarrow> nat \<Rightarrow> Range" where
  "ranges_at b i =
     (case m_ranges b of (r0, r1, r2) \<Rightarrow> if i = 0 then r0 else if i = 1 then r1 else r2)"

text \<open>
  One point of \<open>BoxDistance::operator()\<close>: the six blocks xmin, xmax, ymin, ymax,
  zmin, zmax in the order of the source. \<open>BoxDistance\<close> holds its bounds only, so the
  evaluator is a function of the bounds.
\<close>

definition box_point :: "AABB \<Rightarrow> Vec3 \<Rightarrow> Float" where
  "box_point bounds p =
     (let xmin = range_min (ranges_at bounds 0); xmax = range_max (ranges_at bounds 0);
          ymin = range_min (ranges_at bounds 1); ymax = range_max (ranges_at bounds 1);
          zmin = range_min (ranges_at bounds 2); zmax = range_max (ranges_at bounds 2);
          dist = plane_terms p (xmin, ymin, zmin) (- 1, 0, 0);
          dist = max dist (plane_terms p (xmax, ymin, zmin) (1, 0, 0));
          dist = max dist (plane_terms p (xmin, ymin, zmin) (0, - 1, 0));
          dist = max dist (plane_terms p (xmin, ymax, zmin) (0, 1, 0));
          dist = max dist (plane_terms p (xmin, ymin, zmin) (0, 0, - 1));
          dist = max dist (plane_terms p (xmin, ymin, zmax) (0, 0, 1))
      in dist)"

definition BoxDistance_call :: "AABB \<Rightarrow> Mesh \<Rightarrow> Field" where
  "BoxDistance_call bounds mesh =
     wrap_field mesh (map (box_point bounds) (m_values (mesh_dof_data mesh)))"

subsection \<open>Domains\<close>

text \<open>
  Modelled from the spec: the \<open>DataSet\<close> class of dray is not among the sources. The
  specification gives its contract: a domain owns one mesh, or none, and named fields,
  with field add, remove and presence test by name. \<open>mesh()\<close> is the mesh or the null
  pointer; \<open>add_field\<close> appends; \<open>remove_field\<close> leaves no field of that name.
  \<open>DataSet\<close> is copied by value, so a change of a copy does not reach the original.
\<close>

record DataSet =
  ds_mesh :: "Mesh option"
  ds_fields :: "Field list"

text \<open>Modelled from the spec: a default-constructed \<open>DataSet\<close>, no mesh, no field.\<close>

definition DataSet_new :: DataSet where
  "DataSet_new = \<lparr>ds_mesh = None, ds_fields = []\<rparr>"

text \<open>Modelled from the spec: \<open>DataSet::add_field\<close>, field add.\<close>

definition add_field :: "DataSet \<Rightarrow> Field \<Rightarrow> DataSet" where
  "add_field d f = d\<lparr>ds_fields := ds_fields d @ [f]\<rparr>"

text \<open>Modelled from the spec: \<open>DataSet::has_field\<close>, presence test by name.\<close>

definition has_field :: "DataSet \<Rightarrow> string \<Rightarrow> bool" where
  "has_field d nm = (\<exists>f \<in> set (ds_fields d). field_name f = nm)"

text \<open>Modelled from the spec: \<open>DataSet::remove_field\<close>, field remove by name.\<close>

definition remove_field :: "DataSet \<Rightarrow> string \<Rightarrow> DataSet" where
  "remove_field d nm = d\<lparr>ds_fields := filter (\<lambda>f. field_name f \<noteq> nm) (ds_fields d)\<rparr>"

text \<open>
  Modelled from the spec: \<open>dispatch_3d\<close> of dray/dispatcher.hpp is not among the
  sources. It resolves the element type of the mesh and calls the functor on it; a mesh
  type it does not support is a fatal dispatch error. Which meshes it supports is the
  parameter \<open>supported\<close>. A null mesh pointer is dereferenced.
\<close>

definition dispatch_3d :: "(Mesh \<Rightarrow> bool) \<Rightarrow> Mesh option \<Rightarrow> (Mesh \<Rightarrow> Field) \<Rightarrow> error + Field" where
  "dispatch_3d supported m functor =
     (case m of
        None \<Rightarrow> Inl NullPointer
      | Some mesh \<Rightarrow> if supported mesh then Inr (functor mesh) else Inl DispatchError)"

subsection \<open>Shape configuration: \<open>Clip::InternalsType\<close>\<close>

record InternalsType =
  boxbounds :: AABB
  sphere_center :: Vec3
  sphere_radius :: Float
  plane_origin :: Mat3
  plane_normal :: Mat3
  clip_mode :: int

text \<open>
  The constructor and the default member initialisers. The default-constructed
  \<open>AABB<3>\<close> comes from dray/aabb.hpp, which is not among the sources: it is the
  parameter \<open>bounds0\<close>.
\<close>

definition InternalsType_new :: "AABB \<Rightarrow> InternalsType" where
  "InternalsType_new bounds0 =
     \<lparr>boxbounds = bounds0,
      sphere_center = (0, 0, 0),
      sphere_radius = 1,
      plane_origin = ((0, 0, 0), (0, 0, 0), (0, 0, 0)),
      plane_normal = ((1, 0, 0), (0, 1, 0), (0, 0, 1)),
      clip_mode = 2\<rparr>"

definition SetBoxClip :: "AABB \<Rightarrow> InternalsType \<Rightarrow> InternalsType" where
  "SetBoxClip bounds s = s\<lparr>clip_mode := 0, boxbounds := bounds\<rparr>"

definition SetSphereClip :: "Vec3 \<Rightarrow> Float \<Rightarrow> InternalsType \<Rightarrow> InternalsType" where
  "SetSphereClip center radius s =
     s\<lparr>clip_mode := 1, sphere_center := center, sphere_radius := radius\<rparr>"

definition SetPlaneClip :: "Vec3 \<Rightarrow> Vec3 \<Rightarrow> InternalsType \<Rightarrow> InternalsType" where
  "SetPlaneClip origin normal s =
     s\<lparr>clip_mode := 2,
       plane_origin := (origin, row (plane_origin s) 1, row (plane_origin s) 2),
       plane_normal := (normal, row (plane_normal s) 1, row (plane_normal s) 2)\<rparr>"

definition Set2PlaneClip :: "Vec3 \<Rightarrow> Vec3 \<Rightarrow> Vec3 \<Rightarrow> Vec3 \<Rightarrow> InternalsType \<Rightarrow> InternalsType" where
  "Set2PlaneClip origin1 normal1 origin2 normal2 s =
     s\<lparr>clip_mode := 3,
       plane_origin := (origin1, origin2, row (plane_origin s) 2),
       plane_normal := (normal1, normal2, row (plane_normal s) 2)\<rparr>"

definition Set3PlaneClip ::
  "Vec3 \<Rightarrow> Vec3 \<Rightarrow> Vec3 \<Rightarrow> Vec3 \<Rightarrow> Vec3 \<Rightarrow> Vec3 \<Rightarrow> InternalsType \<Rightarrow> InternalsType" where
  "Set3PlaneClip origin1 normal1 origin2 normal2 origin3 normal3 s =
     s\<lparr>clip_mode := 4,
       plane_origin := (origin1, origin2, origin3),
       plane_normal := (normal1, normal2, normal3)\<rparr>"

definition num_passes :: "InternalsType \<Rightarrow> bool \<Rightarrow> int" where
  "num_passes s multipass =
     (if clip_mode s = 3 \<and> multipass then 2
      else if clip_mode s = 4 \<and> multipass then 3
      else 1)"

text \<open>
  The \<open>make_..._distances\<close> methods return the field and write \<open>clip_value\<close>
  through a reference: the model returns the pair.
\<close>

definition make_box_distances ::
  "(Mesh \<Rightarrow> bool) \<Rightarrow> InternalsType \<Rightarrow> DataSet \<Rightarrow> error + Field \<times> Float" where
  "make_box_distances supported s domain =
     (case dispatch_3d supported (ds_mesh domain) (BoxDistance_call (boxbounds s)) of
        Inl e \<Rightarrow> Inl e
      | Inr retval \<Rightarrow> Inr (retval, 0))"

definition make_sphere_distances ::
  "(Mesh \<Rightarrow> bool) \<Rightarrow> InternalsType \<Rightarrow> DataSet \<Rightarrow> error + Field \<times> Float" where
  "make_sphere_distances supported s domain =
     (let distcalc = SphereDistance_new (sphere_center s) (sphere_radius s)
      in case dispatch_3d supported (ds_mesh domain) (SphereDistance_call distcalc) of
           Inl e \<Rightarrow> Inl e
         | Inr retval \<Rightarrow> Inr (retval, sphere_radius s))"

text \<open>
  \<open>plane_origin[plane_index]\<close> has three rows; the source does not check the index,
  and a read past the array is undefined behaviour in C++. The model reports it.
\<close>

definition make_plane_distances ::
  "(Mesh \<Rightarrow> bool) \<Rightarrow> InternalsType \<Rightarrow> DataSet \<Rightarrow> nat \<Rightarrow> error + Field \<times> Float" where
  "make_plane_distances supported s domain plane_index =
     (if plane_index < 3 then
        (let origin = row (plane_origin s) plane_index;
             normal = row (plane_normal s) plane_index;
             distcalc = SinglePlaneDistance_new origin normal
         in case dispatch_3d supported (ds_mesh domain) (SinglePlaneDistance_call distcalc) of
              Inl e \<Rightarrow> Inl e
            | Inr retval \<Rightarrow> Inr (retval, 0))
      else Inl IndexOutOfRange)"

definition make_multi_plane_distances ::
  "(Mesh \<Rightarrow> bool) \<Rightarrow> InternalsType \<Rightarrow> DataSet \<Rightarrow> error + Field \<times> Float" where
  "make_multi_plane_distances supported s domain =
     (case MultiPlaneDistance_new (plane_origin s) (plane_normal s) (clip_mode s - 1) of
        Inl e \<Rightarrow> Inl e
      | Inr distcalc \<Rightarrow>
          (case dispatch_3d supported (ds_mesh domain) (MultiPlaneDistance_call distcalc) of
             Inl e \<Rightarrow> Inl e
           | Inr retval \<Rightarrow> Inr (retval, 0)))"

text \<open>
  \<open>make_distances\<close>: the field is a null \<open>shared_ptr\<close> (\<open>None\<close>) and \<open>clip_value\<close>
  keeps the value the caller gave it when \<open>clip_mode\<close> is none of 0 to 4.
\<close>

definition make_distances ::
  "(Mesh \<Rightarrow> bool) \<Rightarrow> InternalsType \<Rightarrow> DataSet \<Rightarrow> Float \<Rightarrow> bool \<Rightarrow> nat
     \<Rightarrow> error + Field option \<times> Float" where
  "make_distances supported s domain clip_value multipass pass =
     (let some = (\<lambda>r. case r of Inl e \<Rightarrow> Inl e | Inr (f, v) \<Rightarrow> Inr (Some f, v))
      in if clip_mode s = 0 then some (make_box_distances supported s domain)
         else if clip_mode s = 1 then some (make_sphere_distances supported s domain)
         else if clip_mode s = 2 then some (make_plane_distances supported s domain 0)
         else if clip_mode s = 3 \<or> clip_mode s = 4 then
           (if multipass then some (make_plane_distances supported s domain pass)
            else some (make_multi_plane_distances supported s domain))
         else Inr (None, clip_value))"

subsection \<open>The driver: \<open>Clip::execute\<close>\<close>

text \<open>
  The settings that \<open>execute\<close> gives a \<open>ClipField\<close> filter before it runs it
  (\<open>set_clip_value\<close>, \<open>set_field\<close>, \<open>exclude_clip_field\<close>, \<open>set_invert_clip\<close>).
\<close>

record ClipField =
  cf_clip_value :: Float
  cf_field :: string
  cf_exclude_clip_field :: bool
  cf_invert_clip :: bool

record Clip =
  m_internals :: InternalsType
  m_invert :: bool
  m_do_multi_plane :: bool

definition Clip_new :: "AABB \<Rightarrow> Clip" where
  "Clip_new bounds0 =
     \<lparr>m_internals = InternalsType_new bounds0, m_invert = False, m_do_multi_plane = False\<rparr>"

definition Clip_SetBoxClip :: "AABB \<Rightarrow> Clip \<Rightarrow> Clip" where
  "Clip_SetBoxClip bounds c = c\<lparr>m_internals := SetBoxClip bounds (m_internals c)\<rparr>"

definition Clip_SetSphereClip :: "Vec3 \<Rightarrow> Float \<Rightarrow> Clip \<Rightarrow> Clip" where
  "Clip_SetSphereClip center radius c =
     c\<lparr>m_internals := SetSphereClip center radius (m_internals c)\<rparr>"

definition Clip_SetPlaneClip :: "Vec3 \<Rightarrow> Vec3 \<Rightarrow> Clip \<Rightarrow> Clip" where
  "Clip_SetPlaneClip origin normal c =
     c\<lparr>m_internals := SetPlaneClip origin normal (m_internals c)\<rparr>"

definition Clip_Set2PlaneClip :: "Vec3 \<Rightarrow> Vec3 \<Rightarrow> Vec3 \<Rightarrow> Vec3 \<Rightarrow> Clip \<Rightarrow> Clip" where
  "Clip_Set2PlaneClip origin1 normal1 origin2 normal2 c =
     c\<lparr>m_internals := Set2PlaneClip origin1 normal1 origin2 normal2 (m_internals c)\<rparr>"

definition Clip_Set3PlaneClip ::
  "Vec3 \<Rightarrow> Vec3 \<Rightarrow> Vec3 \<Rightarrow> Vec3 \<Rightarrow> Vec3 \<Rightarrow> Vec3 \<Rightarrow> Clip \<Rightarrow> Clip" where
  "Clip_Set3PlaneClip origin1 normal1 origin2 normal2 origin3 normal3 c =
     c\<lparr>m_internals :=
         Set3PlaneClip origin1 normal1 origin2 normal2 origin3 normal3 (m_internals c)\<rparr>"

definition SetInvertClip :: "bool \<Rightarrow> Clip \<Rightarrow> Clip" where
  "SetInvertClip invert c = c\<lparr>m_invert := invert\<rparr>"

definition SetMultiPlane :: "bool \<Rightarrow> Clip \<Rightarrow> Clip" where
  "SetMultiPlane v c = c\<lparr>m_do_multi_plane := v\<rparr>"

text \<open>\<open>std::string field_name("__dray_clip_field__")\<close>.\<close>

definition clip_field_name :: string where
  "clip_field_name = ''__dray_clip_field__''"

text \<open>
  Modelled from the spec: the \<open>Collection\<close> class of dray is not among the sources. A
  collection is the ordered list of its local domains; \<open>local_size\<close> and \<open>domain(i)\<close>
  walk it in order and \<open>add_domain\<close> appends.
\<close>

type_synonym Collection = "DataSet list"

text \<open>
  The \<open>ClipField\<close> filter is outside the sources: it is the parameter
  \<open>clip_execute\<close>, from the settings and the input domain to the output domain. What
  \<open>execute\<close> hands to it is recorded, call after call, as a list of pairs of the
  settings and the input domain.
\<close>

type_synonym clip_call = "ClipField \<times> DataSet"

text \<open>The variables of the pass loop: \<open>input\<close>, \<open>output\<close>, and the calls so far.\<close>

type_synonym pass_state = "DataSet \<times> DataSet \<times> clip_call list"

text \<open>
  One iteration of \<open>for(size_t pass = 0; pass < npasses; pass++)\<close>. A null field
  from \<open>make_distances\<close> is dereferenced by \<open>f->mesh_name\<close>.
\<close>

definition clip_pass ::
  "(Mesh \<Rightarrow> bool) \<Rightarrow> (ClipField \<Rightarrow> DataSet \<Rightarrow> DataSet) \<Rightarrow> Clip \<Rightarrow> DataSet \<Rightarrow> nat
     \<Rightarrow> pass_state \<Rightarrow> error + pass_state" where
  "clip_pass supported clip_execute c dom_i pass st =
     (case st of (input, output, calls) \<Rightarrow>
     (case make_distances supported (m_internals c) dom_i 0 (m_do_multi_plane c) pass of
        Inl e \<Rightarrow> Inl e
      | Inr (fo, clip_value) \<Rightarrow>
          (case fo of
             None \<Rightarrow> Inl NullPointer
           | Some f \<Rightarrow>
               (case ds_mesh dom_i of
                  None \<Rightarrow> Inl NullPointer
                | Some mesh \<Rightarrow>
                    let f = f\<lparr>field_mesh_name := mesh_name mesh\<rparr>;
                        f = f\<lparr>field_name := clip_field_name\<rparr>;
                        input = add_field input f;
                        clipper = \<lparr>cf_clip_value = clip_value,
                                   cf_field = clip_field_name,
                                   cf_exclude_clip_field = True,
                                   cf_invert_clip =
                                     (if clip_mode (m_internals c) = 1 then \<not> m_invert c
                                      else m_invert c)\<rparr>;
                        output = clip_execute clipper input;
                        calls = calls @ [(clipper, input)];
                        input = (if has_field input clip_field_name
                                 then remove_field input clip_field_name else input);
                        output = (if has_field output clip_field_name
                                  then remove_field output clip_field_name else output);
                        input = output
                    in Inr (input, output, calls)))))"

fun pass_loop ::
  "(Mesh \<Rightarrow> bool) \<Rightarrow> (ClipField \<Rightarrow> DataSet \<Rightarrow> DataSet) \<Rightarrow> Clip \<Rightarrow> DataSet \<Rightarrow> nat list
     \<Rightarrow> pass_state \<Rightarrow> error + pass_state" where
  "pass_loop supported clip_execute c dom_i [] st = Inr st"
| "pass_loop supported clip_execute c dom_i (pass # passes) st =
     (case clip_pass supported clip_execute c dom_i pass st of
        Inl e \<Rightarrow> Inl e
      | Inr st' \<Rightarrow> pass_loop supported clip_execute c dom_i passes st')"

text \<open>
  The loop over the domains of the collection, with the result collection \<open>res\<close> and
  the calls so far. \<open>DataSet input = dom, output;\<close> starts \<open>output\<close> as a
  default-constructed domain.
\<close>

fun domain_loop ::
  "(Mesh \<Rightarrow> bool) \<Rightarrow> (ClipField \<Rightarrow> DataSet \<Rightarrow> DataSet) \<Rightarrow> Clip \<Rightarrow> DataSet list
     \<Rightarrow> Collection \<times> clip_call list \<Rightarrow> error + Collection \<times> clip_call list" where
  "domain_loop supported clip_execute c [] acc = Inr acc"
| "domain_loop supported clip_execute c (dom_i # rest) (res, calls) =
     (if ds_mesh dom_i \<noteq> None then
        (let npasses = nat (num_passes (m_internals c) (m_do_multi_plane c))
         in case pass_loop supported clip_execute c dom_i [0..<npasses] (dom_i, DataSet_new, calls) of
              Inl e \<Rightarrow> Inl e
            | Inr (input, output, calls') \<Rightarrow>
                domain_loop supported clip_execute c rest (res @ [output], calls'))
      else domain_loop supported clip_execute c rest (res, calls))"

definition execute ::
  "(Mesh \<Rightarrow> bool) \<Rightarrow> (ClipField \<Rightarrow> DataSet \<Rightarrow> DataSet) \<Rightarrow> Clip \<Rightarrow> Collection
     \<Rightarrow> error + Collection \<times> clip_call list" where
  "execute supported clip_execute c collection =
     domain_loop supported clip_execute c collection ([], [])"

text \<open>
  A stand-in for the \<open>ClipField\<close> filter, to run \<open>execute\<close> on concrete domains: it
  keeps the control points of the mesh whose value in the named field is below the clip
  value (at or above it when inverted), pairing values and control points by position,
  and drops the named field when told to exclude it.
\<close>

definition sample_clip :: "ClipField \<Rightarrow> DataSet \<Rightarrow> DataSet" where
  "sample_clip cf d =
     (case (ds_mesh d, find (\<lambda>f. field_name f = cf_field cf) (ds_fields d)) of
        (Some mesh, Some f) \<Rightarrow>
          (let keep = (\<lambda>v. (v < cf_clip_value cf) \<noteq> cf_invert_clip cf);
               pts = map fst (filter (\<lambda>(p, v). keep v)
                       (zip (m_values (mesh_dof_data mesh)) (m_values (field_gf f))))
           in \<lparr>ds_mesh = Some (mesh\<lparr>mesh_dof_data := (mesh_dof_data mesh)\<lparr>m_values := pts\<rparr>\<rparr>),
               ds_fields = (if cf_exclude_clip_field cf
                            then filter (\<lambda>g. field_name g \<noteq> cf_field cf) (ds_fields d)
                            else ds_fields d)\<rparr>)
      | _ \<Rightarrow> d)"

subsection \<open>Sample inputs\<close>

text \<open>
  Concrete inputs on which the functions above are run: the unit box, a mesh of two
  control points, a domain that holds it and a domain with no mesh.
\<close>

definition sample_bounds :: AABB where
  "sample_bounds =
     \<lparr>m_ranges = (\<lparr>range_min = 0, range_max = 1\<rparr>,
                  \<lparr>range_min = 0, range_max = 1\<rparr>,
                  \<lparr>range_min = 0, range_max = 1\<rparr>)\<rparr>"

definition sample_mesh :: Mesh where
  "sample_mesh =
     \<lparr>mesh_name = ''mesh'',
      mesh_dof_data = \<lparr>m_el_dofs = 2, m_size_el = 1, m_size_ctrl = 2, m_ctrl_idx = [0, 1],
                       m_values = [(- 1, 5, 0), (1, 7, 0)]\<rparr>,
      mesh_order = 1\<rparr>"

definition sample_domain :: DataSet where
  "sample_domain = \<lparr>ds_mesh = Some sample_mesh, ds_fields = []\<rparr>"

definition meshless_domain :: DataSet where
  "meshless_domain = \<lparr>ds_mesh = None, ds_fields = []\<rparr>"

section \<open>Properties\<close>

subsection \<open>Evaluation and small facts\<close>

text \<open>The defining equations that run the driver on a concrete input.\<close>

lemmas run_defs =
  execute_def num_passes_def clip_pass_def make_distances_def make_box_distances_def
  make_sphere_distances_def make_plane_distances_def make_multi_plane_distances_def
  MultiPlaneDistance_new_def dispatch_3d_def
  SinglePlaneDistance_new_def SinglePlaneDistance_call_def SphereDistance_new_def
  SphereDistance_call_def BoxDistance_call_def MultiPlaneDistance_call_def
  wrap_field_def normalize_vec_def plane_terms_def row_def
  add_field_def has_field_def remove_field_def clip_field_name_def DataSet_new_def
  Clip_new_def InternalsType_new_def Clip_SetBoxClip_def Clip_SetSphereClip_def
  Clip_SetPlaneClip_def Clip_Set2PlaneClip_def Clip_Set3PlaneClip_def SetBoxClip_def
  SetSphereClip_def SetPlaneClip_def Set2PlaneClip_def Set3PlaneClip_def SetInvertClip_def
  SetMultiPlane_def sample_domain_def sample_mesh_def meshless_domain_def sample_bounds_def
  Let_def

lemma row_simps:
  "row (r0, r1, r2) 0 = r0" "row (r0, r1, r2) (Suc 0) = r1" "row (r0, r1, r2) 2 = r2"
  by (simp_all add: row_def)

lemma upt_small:
  "[0..<Suc 0] = [0]" "[0..<2] = [0, Suc 0]" "[0..<3] = [0, Suc 0, 2]"
  by (simp_all add: upt_rec)

lemma set_small:
  "{0..<Suc 0} = {0}" "{0..<2::nat} = {0, Suc 0}" "{0..<3::nat} = {0, Suc 0, 2}"
  by auto

lemma setters_clip_mode:
  "clip_mode (SetBoxClip b s) = 0"
  "clip_mode (SetSphereClip ctr r s) = 1"
  "clip_mode (SetPlaneClip o1 n1 s) = 2"
  "clip_mode (Set2PlaneClip o1 n1 o2 n2 s) = 3"
  "clip_mode (Set3PlaneClip o1 n1 o2 n2 o3 n3 s) = 4"
  "clip_mode (InternalsType_new b) = 2"
  by (simp_all add: SetBoxClip_def SetSphereClip_def SetPlaneClip_def Set2PlaneClip_def
      Set3PlaneClip_def InternalsType_new_def)

subsection \<open>The multi-plane loop\<close>

text \<open>
  For one to three planes the loop leaves in \<open>pdist\<close> the least of the plane
  distances, each taken with the normalised normal.
\<close>

lemma multi_plane_point_Min:
  assumes "MultiPlaneDistance_new origin normal n = Inr distcalc"
  shows "multi_plane_point distcalc pt =
           Min ((\<lambda>p. plane_terms pt (row origin p) (normalize_vec (row normal p))) ` {0..<nat n})"
proof -
  obtain a0 a1 a2 where origin: "origin = (a0, a1, a2)"
    by (cases origin) auto
  obtain b0 b1 b2 where normal: "normal = (b0, b1, b2)"
    by (cases normal) auto
  from assms have n: "n = 1 \<or> n = 2 \<or> n = 3"
    and d: "distcalc = \<lparr>mp_origin = origin,
              mp_normal = (normalize_vec (row normal 0), normalize_vec (row normal 1),
                           normalize_vec (row normal 2)),
              mp_planes = n\<rparr>"
    by (auto simp: MultiPlaneDistance_new_def split: if_splits)
  from n show ?thesis
  proof (elim disjE)
    assume "n = 1"
    then show ?thesis
      by (simp add: d origin normal multi_plane_point_def upt_small set_small row_simps)
  next
    assume "n = 2"
    then show ?thesis
      by (simp add: d origin normal multi_plane_point_def upt_small set_small row_simps
          min.commute)
  next
    assume "n = 3"
    then show ?thesis
      by (simp add: d origin normal multi_plane_point_def upt_small set_small row_simps
          min.commute min.left_commute)
  qed
qed

subsection \<open>One pass of the driver\<close>

lemma has_field_strip:
  "\<not> has_field (if has_field d nm then remove_field d nm else d) nm"
  by (auto simp: has_field_def remove_field_def)

lemma clip_pass_Inr:
  assumes "clip_pass supported clip_execute c dom_i pass (inp, outp, calls) = Inr st'"
  shows "\<exists>f v mesh.
           make_distances supported (m_internals c) dom_i 0 (m_do_multi_plane c) pass =
             Inr (Some f, v) \<and>
           ds_mesh dom_i = Some mesh \<and>
           (let input1 = add_field inp (f\<lparr>field_mesh_name := mesh_name mesh,
                                             field_name := clip_field_name\<rparr>);
                clipper = \<lparr>cf_clip_value = v, cf_field = clip_field_name,
                           cf_exclude_clip_field = True,
                           cf_invert_clip = (if clip_mode (m_internals c) = 1 then \<not> m_invert c
                                             else m_invert c)\<rparr>;
                output1 = clip_execute clipper input1;
                output2 = (if has_field output1 clip_field_name
                           then remove_field output1 clip_field_name else output1)
            in st' = (output2, output2, calls @ [(clipper, input1)]))"
  using assms
  by (auto simp: clip_pass_def Let_def split: sum.splits option.splits prod.splits)

lemma clip_pass_make_distances:
  assumes "make_distances supported (m_internals c) dom_i 0 (m_do_multi_plane c) pass =
             Inr (Some f, v)"
    and "ds_mesh dom_i = Some mesh"
  shows "clip_pass supported clip_execute c dom_i pass (inp, outp, calls) =
           (let input1 = add_field inp (f\<lparr>field_mesh_name := mesh_name mesh,
                                             field_name := clip_field_name\<rparr>);
                clipper = \<lparr>cf_clip_value = v, cf_field = clip_field_name,
                           cf_exclude_clip_field = True,
                           cf_invert_clip = (if clip_mode (m_internals c) = 1 then \<not> m_invert c
                                             else m_invert c)\<rparr>;
                output1 = clip_execute clipper input1;
                output2 = (if has_field output1 clip_field_name
                           then remove_field output1 clip_field_name else output1)
            in Inr (output2, output2, calls @ [(clipper, input1)]))"
  using assms by (simp add: clip_pass_def Let_def)

lemma clip_pass_output_clean:
  assumes "clip_pass supported clip_execute c dom_i pass st = Inr (inp', outp', calls')"
  shows "\<not> has_field outp' clip_field_name \<and> inp' = outp'"
proof -
  obtain inp outp calls where st: "st = (inp, outp, calls)"
    by (cases st) auto
  from clip_pass_Inr [OF assms [unfolded st]] show ?thesis
    by (auto simp: Let_def has_field_strip)
qed

lemma clip_pass_calls:
  assumes "clip_pass supported clip_execute c dom_i pass (inp, outp, calls) =
             Inr (inp', outp', calls')"
  shows "\<exists>cf d. calls' = calls @ [(cf, d)] \<and>
           cf_invert_clip cf = (if clip_mode (m_internals c) = 1 then \<not> m_invert c else m_invert c)"
  using clip_pass_Inr [OF assms] by (auto simp: Let_def)

subsection \<open>Invariants of the pass loop and of the domain loop\<close>

lemma pass_loop_output_clean:
  assumes "pass_loop supported clip_execute c dom_i passes (inp, outp, calls) =
             Inr (inp', outp', calls')"
    and "\<not> has_field outp clip_field_name"
  shows "\<not> has_field outp' clip_field_name"
  using assms
proof (induction passes arbitrary: inp outp calls)
  case Nil
  then show ?case by simp
next
  case (Cons p ps)
  from Cons.prems(1) obtain i1 o1 c1 where
    step: "clip_pass supported clip_execute c dom_i p (inp, outp, calls) = Inr (i1, o1, c1)"
    and rest: "pass_loop supported clip_execute c dom_i ps (i1, o1, c1) = Inr (inp', outp', calls')"
    by (auto split: sum.splits)
  from clip_pass_output_clean [OF step] have "\<not> has_field o1 clip_field_name" by simp
  with Cons.IH [OF rest] show ?case .
qed

lemma pass_loop_calls:
  assumes "pass_loop supported clip_execute c dom_i passes (inp, outp, calls) =
             Inr (inp', outp', calls')"
    and "\<forall>(cf, d) \<in> set calls. cf_invert_clip cf = b"
    and "b = (if clip_mode (m_internals c) = 1 then \<not> m_invert c else m_invert c)"
  shows "\<forall>(cf, d) \<in> set calls'. cf_invert_clip cf = b"
  using assms(1,2)
proof (induction passes arbitrary: inp outp calls)
  case Nil
  then show ?case by simp
next
  case (Cons p ps)
  from Cons.prems(1) obtain i1 o1 c1 where
    step: "clip_pass supported clip_execute c dom_i p (inp, outp, calls) = Inr (i1, o1, c1)"
    and rest: "pass_loop supported clip_execute c dom_i ps (i1, o1, c1) = Inr (inp', outp', calls')"
    by (auto split: sum.splits)
  from clip_pass_calls [OF step] Cons.prems(2) assms(3)
  have "\<forall>(cf, d) \<in> set c1. cf_invert_clip cf = b" by auto
  with Cons.IH [OF rest] show ?case .
qed

lemma domain_loop_clean:
  assumes "domain_loop supported clip_execute c doms (res, calls) = Inr (res', calls')"
    and "\<forall>d \<in> set res. \<not> has_field d clip_field_name"
  shows "\<forall>d \<in> set res'. \<not> has_field d clip_field_name"
  using assms
proof (induction doms arbitrary: res calls)
  case Nil
  then show ?case by simp
next
  case (Cons dom_i rest)
  show ?case
  proof (cases "ds_mesh dom_i = None")
    case True
    with Cons.prems(1) have "domain_loop supported clip_execute c rest (res, calls) = Inr (res', calls')"
      by simp
    from Cons.IH [OF this Cons.prems(2)] show ?thesis .
  next
    case False
    with Cons.prems(1) obtain i1 o1 c1 where
      passes: "pass_loop supported clip_execute c dom_i
                 [0..<nat (num_passes (m_internals c) (m_do_multi_plane c))]
                 (dom_i, DataSet_new, calls) = Inr (i1, o1, c1)"
      and rest: "domain_loop supported clip_execute c rest (res @ [o1], c1) = Inr (res', calls')"
      by (auto simp: Let_def split: sum.splits)
    have "\<not> has_field DataSet_new clip_field_name"
      by (simp add: has_field_def DataSet_new_def)
    from pass_loop_output_clean [OF passes this] Cons.prems(2)
    have "\<forall>d \<in> set (res @ [o1]). \<not> has_field d clip_field_name" by auto
    from Cons.IH [OF rest this] show ?thesis .
  qed
qed

lemma domain_loop_calls:
  assumes "domain_loop supported clip_execute c doms (res, calls) = Inr (res', calls')"
    and "\<forall>(cf, d) \<in> set calls. cf_invert_clip cf = b"
    and "b = (if clip_mode (m_internals c) = 1 then \<not> m_invert c else m_invert c)"
  shows "\<forall>(cf, d) \<in> set calls'. cf_invert_clip cf = b"
  using assms(1,2)
proof (induction doms arbitrary: res calls)
  case Nil
  then show ?case by simp
next
  case (Cons dom_i rest)
  show ?case
  proof (cases "ds_mesh dom_i = None")
    case True
    with Cons.prems(1) have "domain_loop supported clip_execute c rest (res, calls) = Inr (res', calls')"
      by simp
    from Cons.IH [OF this Cons.prems(2)] show ?thesis .
  next
    case False
    with Cons.prems(1) obtain i1 o1 c1 where
      passes: "pass_loop supported clip_execute c dom_i
                 [0..<nat (num_passes (m_internals c) (m_do_multi_plane c))]
                 (dom_i, DataSet_new, calls) = Inr (i1, o1, c1)"
      and rest: "domain_loop supported clip_execute c rest (res @ [o1], c1) = Inr (res', calls')"
      by (auto simp: Let_def split: sum.splits)
    from pass_loop_calls [OF passes Cons.prems(2) assms(3)]
    have "\<forall>(cf, d) \<in> set c1. cf_invert_clip cf = b" .
    from Cons.IH [OF rest this] show ?thesis .
  qed
qed

subsection \<open>When the driver returns\<close>

lemma make_distances_total:
  assumes "ds_mesh d = Some mesh" and "supported mesh"
    and "clip_mode s \<in> {0, 1, 2, 3, 4}" and "pass < 3"
  shows "\<exists>f v. make_distances supported s d v0 multipass pass = Inr (Some f, v)"
  using assms
  by (auto simp: make_distances_def make_box_distances_def make_sphere_distances_def
      make_plane_distances_def make_multi_plane_distances_def MultiPlaneDistance_new_def
      dispatch_3d_def Let_def)

lemma clip_pass_total:
  assumes "ds_mesh dom_i = Some mesh" and "supported mesh"
    and "clip_mode (m_internals c) \<in> {0, 1, 2, 3, 4}" and "pass < 3"
  shows "\<exists>st'. clip_pass supported clip_execute c dom_i pass st = Inr st'"
proof -
  obtain inp outp calls where st: "st = (inp, outp, calls)"
    by (cases st) auto
  from assms make_distances_total [of dom_i mesh supported "m_internals c" pass 0 "m_do_multi_plane c"]
  obtain f v where
    "make_distances supported (m_internals c) dom_i 0 (m_do_multi_plane c) pass = Inr (Some f, v)"
    by blast
  from clip_pass_make_distances [OF this assms(1)] show ?thesis
    unfolding st by (simp add: Let_def)
qed

lemma pass_loop_total:
  assumes "ds_mesh dom_i = Some mesh" and "supported mesh"
    and "clip_mode (m_internals c) \<in> {0, 1, 2, 3, 4}" and "\<forall>p \<in> set passes. p < 3"
  shows "\<exists>st'. pass_loop supported clip_execute c dom_i passes st = Inr st'"
  using assms(4)
proof (induction passes arbitrary: st)
  case Nil
  have "pass_loop supported clip_execute c dom_i [] st = Inr st" by simp
  then show ?case by (rule exI)
next
  case (Cons p ps)
  then have "p < 3" by simp
  with assms(1-3) clip_pass_total [of dom_i mesh supported c p clip_execute st] obtain st1 where
    "clip_pass supported clip_execute c dom_i p st = Inr st1" by blast
  moreover from Cons obtain st2 where
    "pass_loop supported clip_execute c dom_i ps st1 = Inr st2" by fastforce
  ultimately have "pass_loop supported clip_execute c dom_i (p # ps) st = Inr st2" by simp
  then show ?case by (rule exI)
qed

lemma num_passes_range: "1 \<le> num_passes s multipass \<and> num_passes s multipass \<le> 3"
  by (simp add: num_passes_def)

lemma passes_below_3: "\<forall>p \<in> set [0..<nat (num_passes s multipass)]. p < 3"
  using num_passes_range [of s multipass] by auto

lemma domain_loop_total:
  assumes "clip_mode (m_internals c) \<in> {0, 1, 2, 3, 4}"
    and "\<forall>d \<in> set doms. \<forall>mesh. ds_mesh d = Some mesh \<longrightarrow> supported mesh"
  shows "\<exists>acc'. domain_loop supported clip_execute c doms acc = Inr acc'"
  using assms(2)
proof (induction doms arbitrary: acc)
  case Nil
  have "domain_loop supported clip_execute c [] acc = Inr acc" by simp
  then show ?case by (rule exI)
next
  case (Cons dom_i rest)
  obtain res calls where acc: "acc = (res, calls)"
    by (cases acc) auto
  show ?case
  proof (cases "ds_mesh dom_i")
    case None
    from Cons obtain acc' where
      "domain_loop supported clip_execute c rest (res, calls) = Inr acc'"
      by fastforce
    with None have "domain_loop supported clip_execute c (dom_i # rest) acc = Inr acc'"
      by (simp add: acc)
    then show ?thesis by (rule exI)
  next
    case (Some mesh)
    with Cons.prems have "supported mesh" by simp
    with Some assms(1) passes_below_3 [of "m_internals c" "m_do_multi_plane c"]
      pass_loop_total [of dom_i mesh supported c
        "[0..<nat (num_passes (m_internals c) (m_do_multi_plane c))]" clip_execute
        "(dom_i, DataSet_new, calls)"]
    obtain i1 o1 c1 where
      "pass_loop supported clip_execute c dom_i
         [0..<nat (num_passes (m_internals c) (m_do_multi_plane c))]
         (dom_i, DataSet_new, calls) = Inr (i1, o1, c1)"
      by (metis prod_cases3)
    moreover from Cons obtain acc' where
      "domain_loop supported clip_execute c rest (res @ [o1], c1) = Inr acc'"
      by fastforce
    ultimately have "domain_loop supported clip_execute c (dom_i # rest) acc = Inr acc'"
      using Some by (simp add: acc Let_def)
    then show ?thesis by (rule exI)
  qed
qed

lemma domain_loop_outputs:
  assumes "domain_loop supported clip_execute c doms (res, calls) = Inr (res', calls')"
  shows "\<exists>outs. res' = res @ outs \<and>
           list_all2 (\<lambda>dom_i out. \<exists>calls0 inp calls1.
               pass_loop supported clip_execute c dom_i
                 [0..<nat (num_passes (m_internals c) (m_do_multi_plane c))]
                 (dom_i, DataSet_new, calls0) = Inr (inp, out, calls1))
             (filter (\<lambda>d. ds_mesh d \<noteq> None) doms) outs"
  using assms
proof (induction doms arbitrary: res calls)
  case Nil
  then show ?case by simp
next
  case (Cons dom_i rest)
  show ?case
  proof (cases "ds_mesh dom_i = None")
    case True
    with Cons.prems have "domain_loop supported clip_execute c rest (res, calls) = Inr (res', calls')"
      by simp
    from Cons.IH [OF this] True show ?thesis by simp
  next
    case False
    with Cons.prems obtain i1 o1 c1 where
      passes: "pass_loop supported clip_execute c dom_i
                 [0..<nat (num_passes (m_internals c) (m_do_multi_plane c))]
                 (dom_i, DataSet_new, calls) = Inr (i1, o1, c1)"
      and rest: "domain_loop supported clip_execute c rest (res @ [o1], c1) = Inr (res', calls')"
      by (auto simp: Let_def split: sum.splits)
    from Cons.IH [OF rest] obtain outs where
      outs: "res' = (res @ [o1]) @ outs"
      "list_all2 (\<lambda>dom_i out. \<exists>calls0 inp calls1.
               pass_loop supported clip_execute c dom_i
                 [0..<nat (num_passes (m_internals c) (m_do_multi_plane c))]
                 (dom_i, DataSet_new, calls0) = Inr (inp, out, calls1))
             (filter (\<lambda>d. ds_mesh d \<noteq> None) rest) outs"
      by blast
    have "res' = res @ (o1 # outs)" using outs(1) by simp
    moreover have "list_all2 (\<lambda>dom_i out. \<exists>calls0 inp calls1.
               pass_loop supported clip_execute c dom_i
                 [0..<nat (num_passes (m_internals c) (m_do_multi_plane c))]
                 (dom_i, DataSet_new, calls0) = Inr (inp, out, calls1))
             (filter (\<lambda>d. ds_mesh d \<noteq> None) (dom_i # rest)) (o1 # outs)"
      using False passes outs(2) by auto
    ultimately show ?thesis by blast
  qed
qed

section \<open>The claims\<close>

text \<open>
  C1. With more than one pass, the distance field of pass \<open>k \<ge> 1\<close> is to be computed
  from the output domain of pass \<open>k - 1\<close>. The driver calls \<open>make_distances\<close> on
  \<open>dom\<close>, the original domain, in every pass, and adds the field to \<open>input\<close>. On
  the sample domain, with the planes \<open>x = 0\<close> and \<open>y = 0\<close> in two passes, the first
  pass keeps the control point \<open>(-1, 5, 0)\<close>; the second pass hands the filter this one
  control point with the two values 5 and 7 computed from the two control points of the
  original mesh, where \<open>make_distances\<close> on the output of the first pass gives the one
  value 5.
\<close>

theorem execute_second_pass_field_from_original_domain:
  "map (\<lambda>(cf, d). (map_option (\<lambda>m. m_values (mesh_dof_data m)) (ds_mesh d),
                    map (\<lambda>f. m_values (field_gf f))
                      (filter (\<lambda>f. field_name f = clip_field_name) (ds_fields d))))
     (case execute (\<lambda>m. True) sample_clip
             (SetMultiPlane True
                (Clip_Set2PlaneClip (0, 0, 0) (1, 0, 0) (0, 0, 0) (0, 1, 0)
                   (Clip_new sample_bounds)))
             [sample_domain] of
        Inl e \<Rightarrow> []
      | Inr (res, calls) \<Rightarrow> calls) =
     [(Some [(- 1, 5, 0), (1, 7, 0)], [[- 1, 1]]),
      (Some [(- 1, 5, 0)], [[5, 7]])] \<and>
   (case make_distances (\<lambda>m. True)
           (Set2PlaneClip (0, 0, 0) (1, 0, 0) (0, 0, 0) (0, 1, 0)
              (InternalsType_new sample_bounds))
           \<lparr>ds_mesh = Some (sample_mesh\<lparr>mesh_dof_data :=
                         (mesh_dof_data sample_mesh)\<lparr>m_values := [(- 1, 5, 0)]\<rparr>\<rparr>),
            ds_fields = []\<rparr>
           0 True 1 of
      Inr (Some f, v) \<Rightarrow> m_values (field_gf f)
    | _ \<Rightarrow> []) = [5]"
  by (simp add: run_defs sample_clip_def upt_rec)

text \<open>
  C2. For every shape kind and every value of the invert option, the invert flag that
  \<open>execute\<close> hands to the element-clip filter is the negation of the configured
  option when the shape is the sphere (\<open>clip_mode = 1\<close>), and the configured option
  unchanged for the box, the single plane, two planes and three planes
  (\<open>clip_mode\<close> 0, 2, 3, 4): this holds of every call the driver makes.
\<close>

theorem execute_invert_flag:
  assumes "execute supported clip_execute c collection = Inr (res, calls)"
    and "(cf, d) \<in> set calls"
  shows "(clip_mode (m_internals c) = 1 \<longrightarrow> cf_invert_clip cf = (\<not> m_invert c)) \<and>
         (clip_mode (m_internals c) \<in> {0, 2, 3, 4} \<longrightarrow> cf_invert_clip cf = m_invert c)"
proof -
  have "\<forall>(cf, d) \<in> set ([] :: clip_call list).
          cf_invert_clip cf = (if clip_mode (m_internals c) = 1 then \<not> m_invert c else m_invert c)"
    by simp
  from domain_loop_calls [OF assms(1) [unfolded execute_def] this refl] assms(2)
  have "cf_invert_clip cf = (if clip_mode (m_internals c) = 1 then \<not> m_invert c else m_invert c)"
    by auto
  then show ?thesis by auto
qed

theorem execute_invert_flag_witness:
  "(\<exists>res cf d.
      execute (\<lambda>m. True) (\<lambda>cf d. d) (Clip_SetSphereClip (0, 0, 0) 2 (Clip_new sample_bounds))
        [sample_domain] = Inr (res, [(cf, d)]) \<and> cf_invert_clip cf = True) \<and>
   (\<exists>res cf d.
      execute (\<lambda>m. True) (\<lambda>cf d. d) (Clip_SetBoxClip sample_bounds (Clip_new sample_bounds))
        [sample_domain] = Inr (res, [(cf, d)]) \<and> cf_invert_clip cf = False)"
proof -
  have "\<exists>res cf d.
      execute (\<lambda>m. True) (\<lambda>cf d. d) (Clip_SetSphereClip (0, 0, 0) 2 (Clip_new sample_bounds))
        [sample_domain] = Inr (res, [(cf, d)])"
    by (simp add: run_defs)
  then obtain res cf d where e:
    "execute (\<lambda>m. True) (\<lambda>cf d. d) (Clip_SetSphereClip (0, 0, 0) 2 (Clip_new sample_bounds))
        [sample_domain] = Inr (res, [(cf, d)])"
    by blast
  from execute_invert_flag [OF e, of cf d] have "cf_invert_clip cf = True"
    by (simp add: run_defs)
  with e have a: "\<exists>res cf d.
      execute (\<lambda>m. True) (\<lambda>cf d. d) (Clip_SetSphereClip (0, 0, 0) 2 (Clip_new sample_bounds))
        [sample_domain] = Inr (res, [(cf, d)]) \<and> cf_invert_clip cf = True"
    by blast
  have "\<exists>res cf d.
      execute (\<lambda>m. True) (\<lambda>cf d. d) (Clip_SetBoxClip sample_bounds (Clip_new sample_bounds))
        [sample_domain] = Inr (res, [(cf, d)])"
    by (simp add: run_defs)
  then obtain res' cf' d' where e':
    "execute (\<lambda>m. True) (\<lambda>cf d. d) (Clip_SetBoxClip sample_bounds (Clip_new sample_bounds))
        [sample_domain] = Inr (res', [(cf', d')])"
    by blast
  from execute_invert_flag [OF e', of cf' d'] have "cf_invert_clip cf' = False"
    by (simp add: run_defs)
  with e' have b: "\<exists>res cf d.
      execute (\<lambda>m. True) (\<lambda>cf d. d) (Clip_SetBoxClip sample_bounds (Clip_new sample_bounds))
        [sample_domain] = Inr (res, [(cf, d)]) \<and> cf_invert_clip cf = False"
    by blast
  from a b show ?thesis by (rule conjI)
qed

text \<open>
  C3. \<open>make_distances\<close> on a domain whose mesh the dispatch supports: the box, the
  sphere and the single plane run their own evaluator, whatever the pass index; two or
  three planes with \<open>multipass\<close> run the single-plane evaluator on the plane at the
  pass index; two or three planes without \<open>multipass\<close> run the multi-plane evaluator
  over \<open>clip_mode - 1\<close> planes, whatever the pass index. The clip value is 0 for the
  box and the planes and the configured radius for the sphere.
\<close>

theorem make_distances_dispatch:
  assumes "ds_mesh d = Some mesh" and "supported mesh"
  shows
    "(clip_mode s = 0 \<longrightarrow>
        make_distances supported s d v multipass pass =
          Inr (Some (BoxDistance_call (boxbounds s) mesh), 0)) \<and>
     (clip_mode s = 1 \<longrightarrow>
        make_distances supported s d v multipass pass =
          Inr (Some (SphereDistance_call
                       (SphereDistance_new (sphere_center s) (sphere_radius s)) mesh),
               sphere_radius s)) \<and>
     (clip_mode s = 2 \<longrightarrow>
        make_distances supported s d v multipass pass =
          Inr (Some (SinglePlaneDistance_call
                       (SinglePlaneDistance_new (row (plane_origin s) 0) (row (plane_normal s) 0))
                       mesh), 0)) \<and>
     ((clip_mode s = 3 \<or> clip_mode s = 4) \<and> multipass \<and> pass < 3 \<longrightarrow>
        make_distances supported s d v multipass pass =
          Inr (Some (SinglePlaneDistance_call
                       (SinglePlaneDistance_new (row (plane_origin s) pass)
                          (row (plane_normal s) pass))
                       mesh), 0)) \<and>
     ((clip_mode s = 3 \<or> clip_mode s = 4) \<and> \<not> multipass \<longrightarrow>
        (\<exists>distcalc.
           MultiPlaneDistance_new (plane_origin s) (plane_normal s) (clip_mode s - 1) =
             Inr distcalc \<and>
           mp_planes distcalc = clip_mode s - 1 \<and>
           make_distances supported s d v multipass pass =
             Inr (Some (MultiPlaneDistance_call distcalc mesh), 0)))"
  using assms
  by (auto simp: make_distances_def make_box_distances_def make_sphere_distances_def
      make_plane_distances_def make_multi_plane_distances_def MultiPlaneDistance_new_def
      dispatch_3d_def Let_def)

theorem make_distances_dispatch_witness:
  "make_distances (\<lambda>m. True)
     (Set2PlaneClip (0, 0, 0) (1, 0, 0) (0, 0, 0) (0, 2, 0) (InternalsType_new sample_bounds))
     sample_domain 0 True 1 =
   Inr (Some (SinglePlaneDistance_call (SinglePlaneDistance_new (0, 0, 0) (0, 2, 0)) sample_mesh), 0) \<and>
   m_values (field_gf (SinglePlaneDistance_call (SinglePlaneDistance_new (0, 0, 0) (0, 2, 0))
     sample_mesh)) = [5, 7] \<and>
   make_distances (\<lambda>m. True)
     (SetSphereClip (0, 0, 0) 2 (InternalsType_new sample_bounds)) sample_domain 0 True 1 =
   Inr (Some (SphereDistance_call (SphereDistance_new (0, 0, 0) 2) sample_mesh), 2)"
proof -
  have m: "ds_mesh sample_domain = Some sample_mesh"
    by (simp add: sample_domain_def)
  have t: "(\<lambda>m :: Mesh. True) sample_mesh"
    by simp
  from make_distances_dispatch [of sample_domain sample_mesh "\<lambda>m. True"
      "Set2PlaneClip (0, 0, 0) (1, 0, 0) (0, 0, 0) (0, 2, 0) (InternalsType_new sample_bounds)"
      0 True 1, OF m t]
    make_distances_dispatch [of sample_domain sample_mesh "\<lambda>m. True"
      "SetSphereClip (0, 0, 0) 2 (InternalsType_new sample_bounds)"
      0 True 1, OF m t]
  show ?thesis
    by (simp add: setters_clip_mode Set2PlaneClip_def SetSphereClip_def InternalsType_new_def
        row_simps SinglePlaneDistance_call_def SinglePlaneDistance_new_def wrap_field_def
        sample_mesh_def normalize_vec_def plane_terms_def Let_def)
qed

text \<open>
  C4. \<open>num_passes\<close> is 1 for the box, the sphere and the single plane, whatever
  \<open>multipass\<close>; for two planes it is 2 with \<open>multipass\<close> and 1 without; for three
  planes it is 3 with \<open>multipass\<close> and 1 without.
\<close>

theorem num_passes_table:
  "(clip_mode s \<in> {0, 1, 2} \<longrightarrow> num_passes s multipass = 1) \<and>
   (clip_mode s = 3 \<longrightarrow> num_passes s multipass = (if multipass then 2 else 1)) \<and>
   (clip_mode s = 4 \<longrightarrow> num_passes s multipass = (if multipass then 3 else 1)) \<and>
   num_passes (SetBoxClip bounds s) multipass = 1 \<and>
   num_passes (SetSphereClip center radius s) multipass = 1 \<and>
   num_passes (SetPlaneClip origin1 normal1 s) multipass = 1 \<and>
   num_passes (Set2PlaneClip origin1 normal1 origin2 normal2 s) multipass =
     (if multipass then 2 else 1) \<and>
   num_passes (Set3PlaneClip origin1 normal1 origin2 normal2 origin3 normal3 s) multipass =
     (if multipass then 3 else 1) \<and>
   num_passes (InternalsType_new bounds) multipass = 1"
  by (auto simp: num_passes_def setters_clip_mode)

theorem num_passes_table_witness:
  "num_passes (SetBoxClip sample_bounds (InternalsType_new sample_bounds)) True = 1 \<and>
   num_passes (Set2PlaneClip (0, 0, 0) (1, 0, 0) (0, 0, 0) (0, 1, 0)
                 (InternalsType_new sample_bounds)) True = 2 \<and>
   num_passes (Set3PlaneClip (0, 0, 0) (1, 0, 0) (0, 0, 0) (0, 1, 0) (0, 0, 0) (0, 0, 1)
                 (InternalsType_new sample_bounds)) True = 3"
  using num_passes_table [where s = "SetBoxClip sample_bounds (InternalsType_new sample_bounds)"
      and multipass = True]
    num_passes_table [where s = "Set2PlaneClip (0, 0, 0) (1, 0, 0) (0, 0, 0) (0, 1, 0)
                 (InternalsType_new sample_bounds)" and multipass = True]
    num_passes_table [where s = "Set3PlaneClip (0, 0, 0) (1, 0, 0) (0, 0, 0) (0, 1, 0) (0, 0, 0)
                 (0, 0, 1) (InternalsType_new sample_bounds)" and multipass = True]
  by (simp add: setters_clip_mode)

text \<open>
  C5. With \<open>n\<close> planes, \<open>n\<close> from 1 to 3, the multi-plane evaluator is constructed,
  and its value at every control point is the minimum over the \<open>n\<close> planes of the
  signed distance \<open>dot (point - origin_p) (normalized normal_p)\<close>, which is the value
  of the single-plane evaluator of plane \<open>p\<close> at that control point. It is the
  evaluator that \<open>make_multi_plane_distances\<close> runs, with \<open>n = clip_mode - 1\<close>
  planes, on a domain whose mesh the dispatch supports.
\<close>

theorem multi_plane_min:
  assumes "1 \<le> n" and "n \<le> 3"
  shows "\<exists>distcalc.
           MultiPlaneDistance_new origin normal n = Inr distcalc \<and>
           m_values (field_gf (MultiPlaneDistance_call distcalc mesh)) =
             map (\<lambda>(px, py, pz).
                    Min ((\<lambda>p. case row origin p of (o0, o1, o2) \<Rightarrow>
                               case normalize_vec (row normal p) of (n0, n1, n2) \<Rightarrow>
                                 (px - o0) * n0 + (py - o1) * n1 + (pz - o2) * n2) ` {0..<nat n}))
                 (m_values (mesh_dof_data mesh)) \<and>
           (\<forall>i < length (m_values (mesh_dof_data mesh)).
              m_values (field_gf (MultiPlaneDistance_call distcalc mesh)) ! i =
                Min ((\<lambda>p. m_values (field_gf (SinglePlaneDistance_call
                              (SinglePlaneDistance_new (row origin p) (row normal p)) mesh)) ! i)
                     ` {0..<nat n})) \<and>
           (ds_mesh d = Some mesh \<and> supported mesh \<and> clip_mode s = n + 1 \<and>
            plane_origin s = origin \<and> plane_normal s = normal \<longrightarrow>
              make_multi_plane_distances supported s d =
                Inr (MultiPlaneDistance_call distcalc mesh, 0))"
proof -
  from assms obtain distcalc where dc: "MultiPlaneDistance_new origin normal n = Inr distcalc"
    by (auto simp: MultiPlaneDistance_new_def)
  have terms: "plane_terms pt org nrm =
      (case pt of (px, py, pz) \<Rightarrow> case org of (o0, o1, o2) \<Rightarrow> case nrm of (n0, n1, n2) \<Rightarrow>
         (px - o0) * n0 + (py - o1) * n1 + (pz - o2) * n2)" for pt org nrm
    by (simp add: plane_terms_def Let_def split: prod.splits)
  have point: "multi_plane_point distcalc pt =
      (case pt of (px, py, pz) \<Rightarrow>
         Min ((\<lambda>p. case row origin p of (o0, o1, o2) \<Rightarrow>
                    case normalize_vec (row normal p) of (n0, n1, n2) \<Rightarrow>
                      (px - o0) * n0 + (py - o1) * n1 + (pz - o2) * n2) ` {0..<nat n}))" for pt
    unfolding multi_plane_point_Min [OF dc] terms by (simp split: prod.splits)
  have vals: "m_values (field_gf (MultiPlaneDistance_call distcalc mesh)) =
      map (multi_plane_point distcalc) (m_values (mesh_dof_data mesh))"
    by (simp add: MultiPlaneDistance_call_def wrap_field_def)
  have single: "m_values (field_gf (SinglePlaneDistance_call
          (SinglePlaneDistance_new org nrm) mesh)) ! i =
        plane_terms (m_values (mesh_dof_data mesh) ! i) org (normalize_vec nrm)"
    if "i < length (m_values (mesh_dof_data mesh))" for i org nrm
    using that by (simp add: SinglePlaneDistance_call_def SinglePlaneDistance_new_def wrap_field_def)
  have a: "m_values (field_gf (MultiPlaneDistance_call distcalc mesh)) =
             map (\<lambda>(px, py, pz).
                    Min ((\<lambda>p. case row origin p of (o0, o1, o2) \<Rightarrow>
                               case normalize_vec (row normal p) of (n0, n1, n2) \<Rightarrow>
                                 (px - o0) * n0 + (py - o1) * n1 + (pz - o2) * n2) ` {0..<nat n}))
                 (m_values (mesh_dof_data mesh))"
    unfolding vals by (rule map_cong) (simp_all add: point split: prod.splits)
  have b: "\<forall>i < length (m_values (mesh_dof_data mesh)).
              m_values (field_gf (MultiPlaneDistance_call distcalc mesh)) ! i =
                Min ((\<lambda>p. m_values (field_gf (SinglePlaneDistance_call
                              (SinglePlaneDistance_new (row origin p) (row normal p)) mesh)) ! i)
                     ` {0..<nat n})"
    by (simp add: vals single multi_plane_point_Min [OF dc])
  have c: "ds_mesh d = Some mesh \<and> supported mesh \<and> clip_mode s = n + 1 \<and>
            plane_origin s = origin \<and> plane_normal s = normal \<longrightarrow>
              make_multi_plane_distances supported s d =
                Inr (MultiPlaneDistance_call distcalc mesh, 0)"
    using dc by (auto simp: make_multi_plane_distances_def dispatch_3d_def)
  from dc a b c show ?thesis by blast
qed

theorem multi_plane_min_witness:
  "\<exists>distcalc.
     MultiPlaneDistance_new ((0, 0, 0), (0, 0, 0), (0, 0, 0)) ((2, 0, 0), (0, 1, 0), (0, 0, 1)) 2 =
       Inr distcalc \<and>
     m_values (field_gf (MultiPlaneDistance_call distcalc sample_mesh)) = [- 1, 1] \<and>
     make_multi_plane_distances (\<lambda>m. True)
       (Set2PlaneClip (0, 0, 0) (2, 0, 0) (0, 0, 0) (0, 1, 0) (InternalsType_new sample_bounds))
       sample_domain =
     Inr (MultiPlaneDistance_call distcalc sample_mesh, 0)"
proof -
  have "(1 :: int) \<le> 2" and "(2 :: int) \<le> 3"
    by simp_all
  from multi_plane_min [OF this, where origin = "((0, 0, 0), (0, 0, 0), (0, 0, 0))"
      and normal = "((2, 0, 0), (0, 1, 0), (0, 0, 1))" and mesh = sample_mesh
      and d = sample_domain and supported = "\<lambda>m. True"
      and s = "Set2PlaneClip (0, 0, 0) (2, 0, 0) (0, 0, 0) (0, 1, 0)
                 (InternalsType_new sample_bounds)"]
  obtain distcalc where
    dc: "MultiPlaneDistance_new ((0, 0, 0), (0, 0, 0), (0, 0, 0))
           ((2, 0, 0), (0, 1, 0), (0, 0, 1)) 2 = Inr distcalc"
    and vals: "m_values (field_gf (MultiPlaneDistance_call distcalc sample_mesh)) = [- 1, 1]"
    and run: "make_multi_plane_distances (\<lambda>m. True)
       (Set2PlaneClip (0, 0, 0) (2, 0, 0) (0, 0, 0) (0, 1, 0) (InternalsType_new sample_bounds))
       sample_domain =
     Inr (MultiPlaneDistance_call distcalc sample_mesh, 0)"
    by (auto simp: sample_mesh_def sample_domain_def set_small row_simps normalize_vec_def
        Set2PlaneClip_def InternalsType_new_def)
  then show ?thesis by (intro exI conjI)
qed

text \<open>
  C6. The box evaluator gives each control point the maximum of the six signed
  projections onto the outward unit normals of the faces, that is of \<open>lo - p\<close> and
  \<open>p - hi\<close> on each axis. The value is negative for a point strictly inside on all
  three axes, 0 for a point on one face of a box with \<open>lo \<le> hi\<close> on that axis and the
  other two axes strictly inside, and positive for a point outside on some axis.
\<close>

theorem box_distance_max:
  assumes "m_ranges bounds = (\<lparr>range_min = xmin, range_max = xmax\<rparr>,
                              \<lparr>range_min = ymin, range_max = ymax\<rparr>,
                              \<lparr>range_min = zmin, range_max = zmax\<rparr>)"
  shows
    "m_values (field_gf (BoxDistance_call bounds mesh)) =
       map (\<lambda>(px, py, pz). Max {xmin - px, px - xmax, ymin - py, py - ymax, zmin - pz, pz - zmax})
         (m_values (mesh_dof_data mesh)) \<and>
     box_point bounds (px, py, pz) =
       Max {(px - xmin) * (- 1) + (py - ymin) * 0 + (pz - zmin) * 0,
            (px - xmax) * 1 + (py - ymin) * 0 + (pz - zmin) * 0,
            (px - xmin) * 0 + (py - ymin) * (- 1) + (pz - zmin) * 0,
            (px - xmin) * 0 + (py - ymax) * 1 + (pz - zmin) * 0,
            (px - xmin) * 0 + (py - ymin) * 0 + (pz - zmin) * (- 1),
            (px - xmin) * 0 + (py - ymin) * 0 + (pz - zmax) * 1} \<and>
     (xmin < px \<and> px < xmax \<and> ymin < py \<and> py < ymax \<and> zmin < pz \<and> pz < zmax \<longrightarrow>
        box_point bounds (px, py, pz) < 0) \<and>
     ((px = xmin \<or> px = xmax) \<and> xmin \<le> xmax \<and> ymin < py \<and> py < ymax \<and> zmin < pz \<and> pz < zmax \<longrightarrow>
        box_point bounds (px, py, pz) = 0) \<and>
     (xmin < px \<and> px < xmax \<and> (py = ymin \<or> py = ymax) \<and> ymin \<le> ymax \<and> zmin < pz \<and> pz < zmax \<longrightarrow>
        box_point bounds (px, py, pz) = 0) \<and>
     (xmin < px \<and> px < xmax \<and> ymin < py \<and> py < ymax \<and> (pz = zmin \<or> pz = zmax) \<and> zmin \<le> zmax \<longrightarrow>
        box_point bounds (px, py, pz) = 0) \<and>
     (px < xmin \<or> xmax < px \<or> py < ymin \<or> ymax < py \<or> pz < zmin \<or> zmax < pz \<longrightarrow>
        0 < box_point bounds (px, py, pz))"
proof -
  have point: "box_point bounds (qx, qy, qz) =
      Max {xmin - qx, qx - xmax, ymin - qy, qy - ymax, zmin - qz, qz - zmax}" for qx qy qz
    using assms by (simp add: box_point_def ranges_at_def plane_terms_def Let_def max.assoc)
  have vals: "m_values (field_gf (BoxDistance_call bounds mesh)) =
      map (box_point bounds) (m_values (mesh_dof_data mesh))"
    by (simp add: BoxDistance_call_def wrap_field_def)
  have a: "m_values (field_gf (BoxDistance_call bounds mesh)) =
       map (\<lambda>(px, py, pz). Max {xmin - px, px - xmax, ymin - py, py - ymax, zmin - pz, pz - zmax})
         (m_values (mesh_dof_data mesh))"
    unfolding vals by (rule map_cong) (auto simp: point)
  have b: "box_point bounds (px, py, pz) =
       Max {(px - xmin) * (- 1) + (py - ymin) * 0 + (pz - zmin) * 0,
            (px - xmax) * 1 + (py - ymin) * 0 + (pz - zmin) * 0,
            (px - xmin) * 0 + (py - ymin) * (- 1) + (pz - zmin) * 0,
            (px - xmin) * 0 + (py - ymax) * 1 + (pz - zmin) * 0,
            (px - xmin) * 0 + (py - ymin) * 0 + (pz - zmin) * (- 1),
            (px - xmin) * 0 + (py - ymin) * 0 + (pz - zmax) * 1}"
    by (simp add: point)
  have c: "xmin < px \<and> px < xmax \<and> ymin < py \<and> py < ymax \<and> zmin < pz \<and> pz < zmax \<longrightarrow>
        box_point bounds (px, py, pz) < 0"
    by (simp add: point)
  have d1: "(px = xmin \<or> px = xmax) \<and> xmin \<le> xmax \<and> ymin < py \<and> py < ymax \<and> zmin < pz \<and> pz < zmax \<longrightarrow>
        box_point bounds (px, py, pz) = 0"
    unfolding point by (auto simp: max_def)
  have d2: "xmin < px \<and> px < xmax \<and> (py = ymin \<or> py = ymax) \<and> ymin \<le> ymax \<and> zmin < pz \<and> pz < zmax \<longrightarrow>
        box_point bounds (px, py, pz) = 0"
    unfolding point by (auto simp: max_def)
  have d3: "xmin < px \<and> px < xmax \<and> ymin < py \<and> py < ymax \<and> (pz = zmin \<or> pz = zmax) \<and> zmin \<le> zmax \<longrightarrow>
        box_point bounds (px, py, pz) = 0"
    unfolding point by (auto simp: max_def)
  have e: "px < xmin \<or> xmax < px \<or> py < ymin \<or> ymax < py \<or> pz < zmin \<or> zmax < pz \<longrightarrow>
        0 < box_point bounds (px, py, pz)"
    unfolding point by (auto simp: max_def)
  from a b c d1 d2 d3 e show ?thesis by blast
qed

theorem box_distance_max_witness:
  "box_point sample_bounds (1 / 2, 1 / 2, 1 / 2) < 0 \<and>
   box_point sample_bounds (0, 1 / 2, 1 / 2) = 0 \<and>
   0 < box_point sample_bounds (2, 1 / 2, 1 / 2) \<and>
   m_values (field_gf (BoxDistance_call sample_bounds sample_mesh)) = [4, 6]"
proof -
  have r: "m_ranges sample_bounds = (\<lparr>range_min = 0, range_max = 1\<rparr>,
             \<lparr>range_min = 0, range_max = 1\<rparr>, \<lparr>range_min = 0, range_max = 1\<rparr>)"
    by (simp add: sample_bounds_def)
  from box_distance_max [OF r, of sample_mesh "1 / 2" "1 / 2" "1 / 2"]
    box_distance_max [OF r, of sample_mesh 0 "1 / 2" "1 / 2"]
    box_distance_max [OF r, of sample_mesh 2 "1 / 2" "1 / 2"]
  show ?thesis
    by (simp add: sample_mesh_def)
qed

text \<open>
  C7. No domain of the collection that \<open>execute\<close> returns has a field of the
  reserved name \<open>__dray_clip_field__\<close>, for every shape, every number of passes,
  every input collection and every element-clip filter; after each pass neither the
  chained input nor the output has one; and \<open>execute\<close> does return a collection when
  the shape kind is one of the five and the dispatch supports the meshes.
\<close>

theorem execute_no_scratch_field:
  "(execute supported clip_execute c collection = Inr (res, calls) \<longrightarrow>
      (\<forall>d \<in> set res. \<not> has_field d clip_field_name)) \<and>
   (clip_pass supported clip_execute c dom_i pass st = Inr (inp', outp', calls') \<longrightarrow>
      \<not> has_field inp' clip_field_name \<and> \<not> has_field outp' clip_field_name) \<and>
   (clip_mode (m_internals c) \<in> {0, 1, 2, 3, 4} \<and>
    (\<forall>d \<in> set collection. \<forall>mesh. ds_mesh d = Some mesh \<longrightarrow> supported mesh) \<longrightarrow>
      (\<exists>res calls. execute supported clip_execute c collection = Inr (res, calls)))"
proof (intro conjI impI)
  assume "execute supported clip_execute c collection = Inr (res, calls)"
  then have "domain_loop supported clip_execute c collection ([], []) = Inr (res, calls)"
    by (simp add: execute_def)
  from domain_loop_clean [OF this] show "\<forall>d \<in> set res. \<not> has_field d clip_field_name"
    by simp
next
  assume "clip_pass supported clip_execute c dom_i pass st = Inr (inp', outp', calls')"
  from clip_pass_output_clean [OF this]
  show "\<not> has_field inp' clip_field_name" and "\<not> has_field outp' clip_field_name"
    by simp_all
next
  assume "clip_mode (m_internals c) \<in> {0, 1, 2, 3, 4} \<and>
    (\<forall>d \<in> set collection. \<forall>mesh. ds_mesh d = Some mesh \<longrightarrow> supported mesh)"
  with domain_loop_total [of c collection supported clip_execute "([], [])"]
  show "\<exists>res calls. execute supported clip_execute c collection = Inr (res, calls)"
    by (auto simp: execute_def)
qed

theorem execute_no_scratch_field_witness:
  "\<exists>out calls.
     execute (\<lambda>m. True) (\<lambda>cf d. d)
       (SetMultiPlane True
          (Clip_Set2PlaneClip (0, 0, 0) (1, 0, 0) (0, 0, 0) (0, 1, 0) (Clip_new sample_bounds)))
       [sample_domain] = Inr ([out], calls) \<and>
     \<not> has_field out clip_field_name \<and>
     has_field (snd (hd calls)) clip_field_name"
proof -
  have "\<exists>out calls.
     execute (\<lambda>m. True) (\<lambda>cf d. d)
       (SetMultiPlane True
          (Clip_Set2PlaneClip (0, 0, 0) (1, 0, 0) (0, 0, 0) (0, 1, 0) (Clip_new sample_bounds)))
       [sample_domain] = Inr ([out], calls) \<and> has_field (snd (hd calls)) clip_field_name"
    by (simp add: run_defs upt_rec)
  then obtain out calls where e:
    "execute (\<lambda>m. True) (\<lambda>cf d. d)
       (SetMultiPlane True
          (Clip_Set2PlaneClip (0, 0, 0) (1, 0, 0) (0, 0, 0) (0, 1, 0) (Clip_new sample_bounds)))
       [sample_domain] = Inr ([out], calls)"
    and h: "has_field (snd (hd calls)) clip_field_name"
    by blast
  from execute_no_scratch_field [of "\<lambda>m. True" "\<lambda>cf d. d"
      "SetMultiPlane True
          (Clip_Set2PlaneClip (0, 0, 0) (1, 0, 0) (0, 0, 0) (0, 1, 0) (Clip_new sample_bounds))"
      "[sample_domain]" "[out]" calls] e
  have "\<not> has_field out clip_field_name"
    by simp
  with e h show ?thesis by blast
qed

text \<open>
  C8. \<open>execute\<close> builds its result from the empty collection. When it returns, the
  result has one output domain for each input domain that has a mesh, in the order of
  the input, each the output of the pass loop run on that input domain; an input domain
  with no mesh contributes nothing. It does return when the shape kind is one of the five
  and the dispatch supports the meshes.
\<close>

theorem execute_output_per_meshed_domain:
  "(execute supported clip_execute c collection = Inr (res, calls) \<longrightarrow>
      length res = length (filter (\<lambda>d. ds_mesh d \<noteq> None) collection) \<and>
      list_all2 (\<lambda>dom_i out. \<exists>calls0 inp calls1.
          pass_loop supported clip_execute c dom_i
            [0..<nat (num_passes (m_internals c) (m_do_multi_plane c))]
            (dom_i, DataSet_new, calls0) = Inr (inp, out, calls1))
        (filter (\<lambda>d. ds_mesh d \<noteq> None) collection) res) \<and>
   execute supported clip_execute c [] = Inr ([], []) \<and>
   (clip_mode (m_internals c) \<in> {0, 1, 2, 3, 4} \<and>
    (\<forall>d \<in> set collection. \<forall>mesh. ds_mesh d = Some mesh \<longrightarrow> supported mesh) \<longrightarrow>
      (\<exists>res calls. execute supported clip_execute c collection = Inr (res, calls)))"
proof (intro conjI impI)
  assume "execute supported clip_execute c collection = Inr (res, calls)"
  then have "domain_loop supported clip_execute c collection ([], []) = Inr (res, calls)"
    by (simp add: execute_def)
  from domain_loop_outputs [OF this]
  show l: "list_all2 (\<lambda>dom_i out. \<exists>calls0 inp calls1.
          pass_loop supported clip_execute c dom_i
            [0..<nat (num_passes (m_internals c) (m_do_multi_plane c))]
            (dom_i, DataSet_new, calls0) = Inr (inp, out, calls1))
        (filter (\<lambda>d. ds_mesh d \<noteq> None) collection) res"
    by simp
  from list_all2_lengthD [OF l]
  show "length res = length (filter (\<lambda>d. ds_mesh d \<noteq> None) collection)"
    by simp
next
  show "execute supported clip_execute c [] = Inr ([], [])"
    by (simp add: execute_def)
next
  assume "clip_mode (m_internals c) \<in> {0, 1, 2, 3, 4} \<and>
    (\<forall>d \<in> set collection. \<forall>mesh. ds_mesh d = Some mesh \<longrightarrow> supported mesh)"
  with domain_loop_total [of c collection supported clip_execute "([], [])"]
  show "\<exists>res calls. execute supported clip_execute c collection = Inr (res, calls)"
    by (auto simp: execute_def)
qed

theorem execute_output_per_meshed_domain_witness:
  "\<exists>res calls.
     execute (\<lambda>m. True) sample_clip (Clip_new sample_bounds)
       [sample_domain, meshless_domain, sample_domain\<lparr>ds_fields := [wrap_field sample_mesh []]\<rparr>] =
       Inr (res, calls) \<and>
     length res = 2 \<and>
     map ds_fields res = [[], [wrap_field sample_mesh []]]"
proof -
  have "\<exists>res calls.
     execute (\<lambda>m. True) sample_clip (Clip_new sample_bounds)
       [sample_domain, meshless_domain, sample_domain\<lparr>ds_fields := [wrap_field sample_mesh []]\<rparr>] =
       Inr (res, calls) \<and> map ds_fields res = [[], [wrap_field sample_mesh []]]"
    by (simp add: run_defs sample_clip_def upt_rec)
  then obtain res calls where e:
    "execute (\<lambda>m. True) sample_clip (Clip_new sample_bounds)
       [sample_domain, meshless_domain, sample_domain\<lparr>ds_fields := [wrap_field sample_mesh []]\<rparr>] =
       Inr (res, calls)"
    and f: "map ds_fields res = [[], [wrap_field sample_mesh []]]"
    by (elim exE conjE)
  from execute_output_per_meshed_domain [of "\<lambda>m. True" sample_clip "Clip_new sample_bounds"
      "[sample_domain, meshless_domain, sample_domain\<lparr>ds_fields := [wrap_field sample_mesh []]\<rparr>]"
      res calls] e
  have "length res = 2"
    by (simp add: sample_domain_def meshless_domain_def)
  with e f show ?thesis by (intro exI conjI)
qed

text \<open>
  C9. \<open>normalize\<close> leaves a vector whose computed magnitude is at most 0 as it is,
  and divides each component of a vector of positive magnitude by the magnitude.
\<close>

theorem normalize_vec_guard:
  "(sqrt (v0 * v0 + v1 * v1 + v2 * v2) \<le> 0 \<longrightarrow> normalize_vec (v0, v1, v2) = (v0, v1, v2)) \<and>
   (sqrt (v0 * v0 + v1 * v1 + v2 * v2) > 0 \<longrightarrow>
      normalize_vec (v0, v1, v2) =
        (v0 / sqrt (v0 * v0 + v1 * v1 + v2 * v2),
         v1 / sqrt (v0 * v0 + v1 * v1 + v2 * v2),
         v2 / sqrt (v0 * v0 + v1 * v1 + v2 * v2)))"
  by (simp add: normalize_vec_def Let_def)

theorem normalize_vec_guard_witness:
  "normalize_vec (0, 0, 0) = (0, 0, 0) \<and> normalize_vec (2, 0, 0) = (1, 0, 0)"
  using normalize_vec_guard [of 0 0 0] normalize_vec_guard [of 2 0 0]
  by simp

text \<open>
  C10. A \<open>Clip\<close> as constructed, with no setter called, is in single-plane mode
  (\<open>clip_mode = 2\<close>) with plane origin \<open>(0, 0, 0)\<close> and normal \<open>(1, 0, 0)\<close>, not
  inverted and not multi-pass. Run on a domain whose mesh the dispatch supports, it makes
  one call to the element-clip filter, with clip value 0, not inverted, on the domain
  with the scratch field whose value at each control point is its \<open>x\<close> coordinate, the
  signed distance to the plane \<open>x = 0\<close>; the result is the one output of that call
  without the scratch field.
\<close>

theorem default_clip_plane_x0:
  assumes "ds_mesh dom_i = Some mesh" and "supported mesh"
  shows
    "clip_mode (m_internals (Clip_new bounds0)) = 2 \<and>
     row (plane_origin (m_internals (Clip_new bounds0))) 0 = (0, 0, 0) \<and>
     row (plane_normal (m_internals (Clip_new bounds0))) 0 = (1, 0, 0) \<and>
     \<not> m_invert (Clip_new bounds0) \<and>
     \<not> m_do_multi_plane (Clip_new bounds0) \<and>
     (let f = \<lparr>field_name = clip_field_name, field_mesh_name = mesh_name mesh,
                field_gf = \<lparr>m_el_dofs = m_el_dofs (mesh_dof_data mesh),
                            m_size_el = m_size_el (mesh_dof_data mesh),
                            m_size_ctrl = m_size_ctrl (mesh_dof_data mesh),
                            m_ctrl_idx = m_ctrl_idx (mesh_dof_data mesh),
                            m_values = map (\<lambda>(px, py, pz). px) (m_values (mesh_dof_data mesh))\<rparr>,
                field_order = mesh_order mesh\<rparr>;
          clipper = \<lparr>cf_clip_value = 0, cf_field = clip_field_name,
                     cf_exclude_clip_field = True, cf_invert_clip = False\<rparr>;
          outp = clip_execute clipper (add_field dom_i f)
      in execute supported clip_execute (Clip_new bounds0) [dom_i] =
           Inr ([if has_field outp clip_field_name then remove_field outp clip_field_name
                 else outp],
                [(clipper, add_field dom_i f)]))"
proof -
  have vals: "map (\<lambda>p. plane_terms p (0, 0, 0) (1, 0, 0)) pts = map (\<lambda>(px, py, pz). px) pts"
    for pts :: "Vec3 list"
    by (rule map_cong) (auto simp: plane_terms_def)
  have n: "normalize_vec (1, 0, 0) = (1, 0, 0)"
    by (simp add: normalize_vec_def)
  have md: "make_distances supported (m_internals (Clip_new bounds0)) dom_i 0
              (m_do_multi_plane (Clip_new bounds0)) 0 =
            Inr (Some (wrap_field mesh (map (\<lambda>(px, py, pz). px) (m_values (mesh_dof_data mesh)))), 0)"
    using assms
    by (simp add: make_distances_def make_plane_distances_def dispatch_3d_def Clip_new_def
        InternalsType_new_def row_simps SinglePlaneDistance_new_def SinglePlaneDistance_call_def
        n vals)
  have np: "[0..<nat (num_passes (m_internals (Clip_new bounds0))
              (m_do_multi_plane (Clip_new bounds0)))] = [0]"
    by (simp add: num_passes_def Clip_new_def InternalsType_new_def)
  have ex: "execute supported clip_execute (Clip_new bounds0) [dom_i] =
      (case clip_pass supported clip_execute (Clip_new bounds0) dom_i 0 (dom_i, DataSet_new, []) of
         Inl e \<Rightarrow> Inl e
       | Inr (inp, outp, calls) \<Rightarrow> Inr ([outp], calls))"
    using assms(1) by (simp add: execute_def np split: sum.splits)
  have cfg: "clip_mode (m_internals (Clip_new bounds0)) = 2"
    "row (plane_origin (m_internals (Clip_new bounds0))) 0 = (0, 0, 0)"
    "row (plane_normal (m_internals (Clip_new bounds0))) 0 = (1, 0, 0)"
    "\<not> m_invert (Clip_new bounds0)" "\<not> m_do_multi_plane (Clip_new bounds0)"
    by (simp_all add: Clip_new_def InternalsType_new_def row_simps)
  have run: "(let f = \<lparr>field_name = clip_field_name, field_mesh_name = mesh_name mesh,
                field_gf = \<lparr>m_el_dofs = m_el_dofs (mesh_dof_data mesh),
                            m_size_el = m_size_el (mesh_dof_data mesh),
                            m_size_ctrl = m_size_ctrl (mesh_dof_data mesh),
                            m_ctrl_idx = m_ctrl_idx (mesh_dof_data mesh),
                            m_values = map (\<lambda>(px, py, pz). px) (m_values (mesh_dof_data mesh))\<rparr>,
                field_order = mesh_order mesh\<rparr>;
          clipper = \<lparr>cf_clip_value = 0, cf_field = clip_field_name,
                     cf_exclude_clip_field = True, cf_invert_clip = False\<rparr>;
          outp = clip_execute clipper (add_field dom_i f)
      in execute supported clip_execute (Clip_new bounds0) [dom_i] =
           Inr ([if has_field outp clip_field_name then remove_field outp clip_field_name
                 else outp],
                [(clipper, add_field dom_i f)]))"
    unfolding ex clip_pass_make_distances [OF md assms(1)]
    by (simp add: Let_def wrap_field_def cfg)
  from cfg run show ?thesis by (intro conjI)
qed

theorem default_clip_plane_x0_witness:
  "execute (\<lambda>m. True) (\<lambda>cf d. d) (Clip_new sample_bounds) [sample_domain] =
     Inr ([sample_domain],
          [(\<lparr>cf_clip_value = 0, cf_field = clip_field_name, cf_exclude_clip_field = True,
              cf_invert_clip = False\<rparr>,
            add_field sample_domain
              \<lparr>field_name = clip_field_name, field_mesh_name = ''mesh'',
               field_gf = \<lparr>m_el_dofs = 2, m_size_el = 1, m_size_ctrl = 2, m_ctrl_idx = [0, 1],
                           m_values = [- 1, 1]\<rparr>,
               field_order = 1\<rparr>)])"
proof -
  have m: "ds_mesh sample_domain = Some sample_mesh"
    by (simp add: sample_domain_def)
  have t: "(\<lambda>m :: Mesh. True) sample_mesh"
    by simp
  from default_clip_plane_x0 [of sample_domain sample_mesh "\<lambda>m. True" sample_bounds "\<lambda>cf d. d",
      OF m t]
  show ?thesis
    by (simp add: Let_def sample_mesh_def sample_domain_def add_field_def has_field_def
        remove_field_def)
qed

end
